theory Spec2Isabelle
  imports Main "HOL-Library.Word"
begin

unbundle bit_operations_syntax

section \<open>The lock verifier scripts and their environment\<close>

text \<open>
  The repository holds two Python scripts, \<^verbatim>\<open>scripts/verify-lock.py\<close> and
  \<^verbatim>\<open>scripts/verify_lock.py\<close>. Each compares the SHA-256 digest of a few
  protected files with digests recorded in a table of the script. This theory embeds both
  scripts, together with the parts of the Python library they call (\<^verbatim>\<open>os.path\<close>
  on POSIX, \<^verbatim>\<open>open\<close>, \<^verbatim>\<open>hashlib.sha256\<close>).

  Python \<^verbatim>\<open>bytes\<close> are lists of \<^typ>\<open>char\<close> (a \<^typ>\<open>char\<close> is one byte), and
  so are Python strings: text is kept in its UTF-8 encoding.
\<close>

subsection \<open>Files and exceptions\<close>

type_synonym bytes = "char list"
type_synonym path = string

text \<open>
  What a path names: a regular file that can be read, a directory, a file that may not be
  opened by this process, or a file whose blocks cannot be read. A path that names
  nothing is absent from the filesystem.
\<close>

datatype node = RegularFile bytes | Directory | Denied | Corrupt

type_synonym filesystem = "path \<Rightarrow> node option"

datatype exn = FileNotFoundError | IsADirectoryError | PermissionError | OSError | KeyError

text \<open>
  The process environment: \<open>script\<close> is the value of \<^verbatim>\<open>__file__\<close>, \<open>cwd\<close> the
  current working directory, and \<open>disk n\<close> the filesystem (keyed by absolute path) as
  the \<open>n\<close>-th filesystem call of the process finds it. Other processes may change the
  files between two calls; a filesystem that nobody changes is a constant \<open>disk\<close>.
\<close>

record env =
  script :: path
  cwd :: path
  disk :: "nat \<Rightarrow> filesystem"

definition static :: "path \<Rightarrow> path \<Rightarrow> filesystem \<Rightarrow> env" where
  "static file dir fs = \<lparr>script = file, cwd = dir, disk = (\<lambda>_. fs)\<rparr>"

text \<open>How a process ends: \<^verbatim>\<open>SystemExit(code)\<close>, or an exception nobody catches.\<close>

datatype outcome = Exit nat | Uncaught exn


text \<open>One element of \<open>stdout\<close> is the text of one \<^verbatim>\<open>print\<close> call.\<close>

record run =
  stdout :: "string list"
  outcome :: outcome

subsection \<open>\<^verbatim>\<open>os.path\<close> (posixpath) and path lookup\<close>

definition sep :: char where
  "sep = CHR ''/''"

text \<open>\<^verbatim>\<open>b.startswith('/')\<close>\<close>

fun is_abs :: "path \<Rightarrow> bool" where
  "is_abs [] = False"
| "is_abs (c # _) = (c = sep)"

text \<open>
  \<^verbatim>\<open>i = p.rfind('/') + 1; head = p[:i]\<close>, then
  \<^verbatim>\<open>if head and head != '/' * len(head): head = head.rstrip('/')\<close>.
\<close>

definition rstrip_sep :: "path \<Rightarrow> path" where
  "rstrip_sep s = rev (dropWhile (\<lambda>c. c = sep) (rev s))"

definition dirname :: "path \<Rightarrow> path" where
  "dirname p =
     (let head = rev (dropWhile (\<lambda>c. c \<noteq> sep) (rev p))
      in if head \<noteq> [] \<and> head \<noteq> replicate (length head) sep then rstrip_sep head else head)"

text \<open>One round of the loop of \<^verbatim>\<open>os.path.join(a, *p)\<close>, and the loop.\<close>

definition join_step :: "path \<Rightarrow> path \<Rightarrow> path" where
  "join_step path b =
     (if is_abs b then b
      else if path = [] \<or> last path = sep then path @ b
      else path @ [sep] @ b)"

definition join :: "path \<Rightarrow> path list \<Rightarrow> path" where
  "join a ps = foldl join_step a ps"

text \<open>
  The kernel resolves a relative path against the working directory of the process. The
  empty path names nothing.
\<close>

definition os_resolve :: "path \<Rightarrow> path \<Rightarrow> path" where
  "os_resolve dir p = (if is_abs p then p else dir @ [sep] @ p)"

definition stat :: "env \<Rightarrow> nat \<Rightarrow> path \<Rightarrow> node option" where
  "stat E t p = (if p = [] then None else disk E t (os_resolve (cwd E) p))"

text \<open>\<^verbatim>\<open>os.path.exists(p)\<close>\<close>

definition exists :: "env \<Rightarrow> nat \<Rightarrow> path \<Rightarrow> bool" where
  "exists E t p = (stat E t p \<noteq> None)"

text \<open>
  \<^verbatim>\<open>open(p, 'rb')\<close> followed by reading the stream to its end: the content, or the
  exception that \<^verbatim>\<open>open\<close> or \<^verbatim>\<open>read\<close> raises.
\<close>

definition open_read :: "env \<Rightarrow> nat \<Rightarrow> path \<Rightarrow> exn + bytes" where
  "open_read E t p =
     (case stat E t p of
        None \<Rightarrow> Inl FileNotFoundError
      | Some Directory \<Rightarrow> Inl IsADirectoryError
      | Some Denied \<Rightarrow> Inl PermissionError
      | Some Corrupt \<Rightarrow> Inl OSError
      | Some (RegularFile content) \<Rightarrow> Inr content)"

subsection \<open>\<^verbatim>\<open>hashlib.sha256\<close>\<close>

text \<open>
  The hash object of \<^verbatim>\<open>hashlib\<close>, after FIPS 180-4: the eight working words, the
  bytes received that do not fill a 64-byte block yet, and the number of bytes received.
\<close>

type_synonym u32 = "32 word"
type_synonym hash8 = "u32 \<times> u32 \<times> u32 \<times> u32 \<times> u32 \<times> u32 \<times> u32 \<times> u32"

definition rotr :: "nat \<Rightarrow> u32 \<Rightarrow> u32" where
  "rotr n x = drop_bit n x OR push_bit (32 - n) x"

definition K256 :: "u32 list" where
  "K256 =
    [1116352408, 1899447441, 3049323471, 3921009573, 961987163, 1508970993, 2453635748,
     2870763221, 3624381080, 310598401, 607225278, 1426881987, 1925078388, 2162078206,
     2614888103, 3248222580, 3835390401, 4022224774, 264347078, 604807628, 770255983,
     1249150122, 1555081692, 1996064986, 2554220882, 2821834349, 2952996808, 3210313671,
     3336571891, 3584528711, 113926993, 338241895, 666307205, 773529912, 1294757372,
     1396182291, 1695183700, 1986661051, 2177026350, 2456956037, 2730485921, 2820302411,
     3259730800, 3345764771, 3516065817, 3600352804, 4094571909, 275423344, 430227734,
     506948616, 659060556, 883997877, 958139571, 1322822218, 1537002063, 1747873779,
     1955562222, 2024104815, 2227730452, 2361852424, 2428436474, 2756734187, 3204031479,
     3329325298]"

definition H256 :: hash8 where
  "H256 = (1779033703, 3144134277, 1013904242, 2773480762,
           1359893119, 2600822924, 528734635, 1541459225)"

text \<open>The big-endian 32-bit words of a block.\<close>

fun be_words :: "bytes \<Rightarrow> u32 list" where
  "be_words (a # b # c # d # r) =
     (push_bit 24 (of_char a) OR push_bit 16 (of_char b) OR push_bit 8 (of_char c) OR of_char d)
       # be_words r"
| "be_words _ = []"

text \<open>The message schedule, newest word first: \<open>schedule n\<close> adds \<open>n\<close> words.\<close>

fun schedule :: "nat \<Rightarrow> u32 list \<Rightarrow> u32 list" where
  "schedule 0 w = w"
| "schedule (Suc n) w =
     schedule n
       (((rotr 17 (w ! 1) XOR rotr 19 (w ! 1) XOR drop_bit 10 (w ! 1)) + w ! 6
         + (rotr 7 (w ! 14) XOR rotr 18 (w ! 14) XOR drop_bit 3 (w ! 14)) + w ! 15) # w)"

fun round256 :: "hash8 \<Rightarrow> u32 \<times> u32 \<Rightarrow> hash8" where
  "round256 (a, b, c, d, e, f, g, h) (k, w) =
     (let t1 = h + (rotr 6 e XOR rotr 11 e XOR rotr 25 e) + ((e AND f) XOR (NOT e AND g)) + k + w;
          t2 = (rotr 2 a XOR rotr 13 a XOR rotr 22 a) + ((a AND b) XOR (a AND c) XOR (b AND c))
      in (t1 + t2, a, b, c, d + t1, e, f, g))"

fun add8 :: "hash8 \<Rightarrow> hash8 \<Rightarrow> hash8" where
  "add8 (a, b, c, d, e, f, g, h) (a', b', c', d', e', f', g', h') =
     (a + a', b + b', c + c', d + d', e + e', f + f', g + g', h + h')"

definition compress :: "hash8 \<Rightarrow> bytes \<Rightarrow> hash8" where
  "compress hv block =
     add8 hv (foldl round256 hv (zip K256 (rev (schedule 48 (rev (be_words block))))))"

text \<open>Compress every full block of the buffer; what is left waits for more bytes.\<close>

function absorb :: "hash8 \<Rightarrow> bytes \<Rightarrow> hash8 \<times> bytes" where
  "absorb hv buf =
     (if 64 \<le> length buf then absorb (compress hv (take 64 buf)) (drop 64 buf) else (hv, buf))"
  by pat_completeness auto
termination
  by (relation "measure (\<lambda>(hv, buf). length buf)") auto

declare absorb.simps [simp del]

record sha256_obj =
  words :: hash8
  pending :: bytes
  total :: nat

text \<open>\<^verbatim>\<open>hashlib.sha256()\<close>\<close>

definition sha256_new :: sha256_obj where
  "sha256_new = \<lparr>words = H256, pending = [], total = 0\<rparr>"

text \<open>\<^verbatim>\<open>h.update(b)\<close>\<close>

definition sha256_update :: "sha256_obj \<Rightarrow> bytes \<Rightarrow> sha256_obj" where
  "sha256_update h b =
     (case absorb (words h) (pending h @ b) of
        (hv', rest) \<Rightarrow> \<lparr>words = hv', pending = rest, total = total h + length b\<rparr>)"

text \<open>\<^verbatim>\<open>hashlib.sha256(data)\<close>: a new object that has received \<open>data\<close>.\<close>

definition hashlib_sha256 :: "bytes \<Rightarrow> sha256_obj" where
  "hashlib_sha256 data = sha256_update sha256_new data"

definition be_bytes8 :: "64 word \<Rightarrow> bytes" where
  "be_bytes8 v =
     map (\<lambda>i. char_of (unat (drop_bit (8 * i) v AND 255))) [7, 6, 5, 4, 3, 2, 1, 0]"

text \<open>
  The padding of a message of \<open>len\<close> bytes: the byte 0x80, zero bytes up to 56 modulo
  64, and the length in bits as a 64-bit big-endian number.
\<close>

definition padding :: "nat \<Rightarrow> bytes" where
  "padding len =
     char_of (128 :: nat) # replicate ((119 - len mod 64) mod 64) (char_of (0 :: nat))
       @ be_bytes8 (of_nat (8 * len))"

definition final_hash :: "sha256_obj \<Rightarrow> hash8" where
  "final_hash h = fst (absorb (words h) (pending h @ padding (total h)))"

definition hex_digit :: "nat \<Rightarrow> char" where
  "hex_digit n = (if n < 10 then char_of (48 + n) else char_of (87 + n))"

definition hex32 :: "u32 \<Rightarrow> string" where
  "hex32 w = map (\<lambda>i. hex_digit (unat (drop_bit (4 * i) w AND 15))) [7, 6, 5, 4, 3, 2, 1, 0]"

fun hex_of_hash :: "hash8 \<Rightarrow> string" where
  "hex_of_hash (a, b, c, d, e, f, g, h) =
     hex32 a @ hex32 b @ hex32 c @ hex32 d @ hex32 e @ hex32 f @ hex32 g @ hex32 h"

text \<open>\<^verbatim>\<open>h.hexdigest()\<close>: 64 lower-case hexadecimal digits.\<close>

definition sha256_hexdigest :: "sha256_obj \<Rightarrow> string" where
  "sha256_hexdigest h = hex_of_hash (final_hash h)"

subsection \<open>\<^verbatim>\<open>scripts/verify-lock.py\<close>\<close>

text \<open>\<^verbatim>\<open>ROOT = os.path.dirname(os.path.dirname(__file__))\<close>, in both scripts.\<close>

definition ROOT :: "path \<Rightarrow> path" where
  "ROOT file = dirname (dirname file)"

text \<open>The table, in the order the dictionary literal lists it (the order of \<^verbatim>\<open>items()\<close>).\<close>

definition HASHES :: "(path \<times> string) list" where
  "HASHES =
    [(''plugins/field/Source/dsp/EMUAuthenticTables.h'',
      ''06fbc6e2fd27db087219f0d9f53f9962997f8cb8001490458f6053bc2e46aa86''),
     (''plugins/field/Source/dsp/ZPlaneFilter.h'',
      ''d73839b6852f7f5d8f135b18cea9c8f68c89962e33342b91bdea99607003e821''),
     (''plugins/field/Source/dsp/EnvelopeFollower.h'',
      ''81d97f6fcbe3547cf319a47205c7ab560c5691c55d8654091ac12b0a6318ba07'')]"

text \<open>
  The \<^verbatim>\<open>while True\<close> loop of \<^verbatim>\<open>sha256_file\<close> over the bytes of the stream not
  read yet: \<^verbatim>\<open>b = f.read(8192); if not b: break; h.update(b)\<close>. A read returns
  the next 8192 bytes, or what is left of the file when that is less.
\<close>

function read_loop :: "sha256_obj \<Rightarrow> bytes \<Rightarrow> sha256_obj" where
  "read_loop h stream =
     (let b = take 8192 stream
      in if b = [] then h else read_loop (sha256_update h b) (drop 8192 stream))"
  by pat_completeness auto
termination
  by (relation "measure (\<lambda>(h, stream). length stream)") auto

declare read_loop.simps [simp del]

definition sha256_file :: "env \<Rightarrow> nat \<Rightarrow> path \<Rightarrow> exn + string" where
  "sha256_file E t p =
     (case open_read E t p of
        Inl e \<Rightarrow> Inl e
      | Inr content \<Rightarrow> Inr (sha256_hexdigest (read_loop sha256_new content)))"

definition missing_line :: "path \<Rightarrow> string" where
  "missing_line rel = ''[LOCK] Missing locked file: '' @ rel"

definition mismatch_lines :: "path \<Rightarrow> string \<Rightarrow> string \<Rightarrow> string list" where
  "mismatch_lines rel expected h =
     [''[LOCK] Hash mismatch for '' @ rel,
      ''       expected: '' @ expected,
      ''       got     : '' @ h]"

text \<open>
  The \<^verbatim>\<open>for rel, expected in HASHES.items()\<close> loop of \<^verbatim>\<open>main\<close>. Its state is the
  flag \<^verbatim>\<open>ok\<close>, the lines printed so far and the number of filesystem calls made so far
  (\<^verbatim>\<open>exists\<close> is one call, opening and reading a file another). An exception leaves
  the loop with the lines printed before it.
\<close>

fun main_loop ::
  "env \<Rightarrow> (path \<times> string) list \<Rightarrow> bool \<times> string list \<times> nat \<Rightarrow> (exn + bool) \<times> string list" where
  "main_loop E [] (ok, out, t) = (Inr ok, out)"
| "main_loop E ((rel, expected) # rest) (ok, out, t) =
     (let p = join (ROOT (script E)) [rel] in
      if \<not> exists E t p then
        main_loop E rest (False, out @ [missing_line rel], t + 1)
      else
        (case sha256_file E (t + 1) p of
           Inl e \<Rightarrow> (Inl e, out)
         | Inr h \<Rightarrow>
             if h \<noteq> expected then
               main_loop E rest (False, out @ mismatch_lines rel expected h, t + 2)
             else main_loop E rest (ok, out, t + 2)))"

definition failed_banner :: string where
  "failed_banner =
     [CHR 0x0A] @ ''LOCK FAILED: DSP files modified. Revert changes or update hashes after re''
       @ [CHR 0xE2, CHR 0x80, CHR 0x91] @ ''validation.''"

text \<open>
  \<^verbatim>\<open>main\<close> run on a table \<open>hashes\<close> from clock \<open>t\<close>, as the script runs it:
  \<^verbatim>\<open>raise SystemExit(main())\<close> makes the value \<^verbatim>\<open>main\<close> returns the exit status.
\<close>

definition main_with :: "(path \<times> string) list \<Rightarrow> env \<Rightarrow> nat \<Rightarrow> run" where
  "main_with hashes E t =
     (case main_loop E hashes (True, [], t) of
        (Inl e, out) \<Rightarrow> \<lparr>stdout = out, outcome = Uncaught e\<rparr>
      | (Inr ok, out) \<Rightarrow>
          if \<not> ok then \<lparr>stdout = out @ [failed_banner], outcome = Exit 2\<rparr>
          else \<lparr>stdout = out @ [''LOCK OK''], outcome = Exit 0\<rparr>)"

definition main :: "env \<Rightarrow> nat \<Rightarrow> run" where
  "main = main_with HASHES"

text \<open>
  The verdict one round of the loop reaches on an entry, the round starting at clock \<open>t\<close>:
  the branch of the loop body that is taken, or the exception that leaves it. The script
  keeps no such value; lemma \<open>main_loop_Cons\<close> below shows that the loop goes by it.
\<close>

datatype status = Ok | Mismatch string | Missing

definition entry_status :: "env \<Rightarrow> nat \<Rightarrow> path \<times> string \<Rightarrow> exn + status" where
  "entry_status E t entry =
     (case entry of (rel, expected) \<Rightarrow>
        (let p = join (ROOT (script E)) [rel] in
         if \<not> exists E t p then Inr Missing
         else
           (case sha256_file E (t + 1) p of
              Inl e \<Rightarrow> Inl e
            | Inr h \<Rightarrow> if h \<noteq> expected then Inr (Mismatch h) else Inr Ok)))"

text \<open>The lines the loop body prints on reaching a verdict.\<close>

fun status_lines :: "path \<times> string \<Rightarrow> exn + status \<Rightarrow> string list" where
  "status_lines (rel, expected) (Inr Missing) = [missing_line rel]"
| "status_lines (rel, expected) (Inr (Mismatch h)) = mismatch_lines rel expected h"
| "status_lines (rel, expected) (Inr Ok) = []"
| "status_lines (rel, expected) (Inl e) = []"

subsection \<open>\<^verbatim>\<open>scripts/verify_lock.py\<close>\<close>

definition Z :: "path \<Rightarrow> path" where
  "Z file = join (ROOT file) [''plugins'', ''EngineField'', ''Source'', ''dsp'', ''ZPlaneFilter.h'']"

definition T :: "path \<Rightarrow> path" where
  "T file =
     join (ROOT file) [''plugins'', ''EngineField'', ''Source'', ''dsp'', ''EMUAuthenticTables.h'']"

definition EXP :: "(string \<times> string) list" where
  "EXP =
    [(''ZPlaneFilter.h'', ''dbfe0b15ba73ab1a44a698e31617fecb0a71cb622dc10c7770994f55e3554f33''),
     (''EMUAuthenticTables.h'',
      ''b3bd58a897b16065c12faa3e2b966f0ac9a28581231ece2be599e19d14cf3756'')]"

text \<open>\<^verbatim>\<open>EXP[name]\<close>\<close>

definition EXP_get :: "string \<Rightarrow> exn + string" where
  "EXP_get name = (case map_of EXP name of None \<Rightarrow> Inl KeyError | Some v \<Rightarrow> Inr v)"

text \<open>\<^verbatim>\<open>def sha(p): return hashlib.sha256(open(p,"rb").read()).hexdigest()\<close>\<close>

definition sha :: "env \<Rightarrow> nat \<Rightarrow> path \<Rightarrow> exn + string" where
  "sha E t p =
     (case open_read E t p of
        Inl e \<Rightarrow> Inl e
      | Inr content \<Rightarrow> Inr (sha256_hexdigest (hashlib_sha256 content)))"

text \<open>
  One of the two lines
  \<^verbatim>\<open>if sha(P) != EXP[name]: bad.append((name, sha(P)))\<close>: the state is the list
  \<^verbatim>\<open>bad\<close> and the number of filesystem calls made so far. The left operand of
  \<^verbatim>\<open>!=\<close> is evaluated first; \<^verbatim>\<open>sha(P)\<close> is called again for the tuple.
\<close>

definition check_line ::
  "env \<Rightarrow> path \<Rightarrow> string \<Rightarrow> (string \<times> string) list \<times> nat \<Rightarrow> exn + (string \<times> string) list \<times> nat" where
  "check_line E p name s =
     (case s of (bad, t) \<Rightarrow>
        (case sha E t p of
           Inl e \<Rightarrow> Inl e
         | Inr h \<Rightarrow>
             (case EXP_get name of
                Inl e \<Rightarrow> Inl e
              | Inr x \<Rightarrow>
                  if h \<noteq> x then
                    (case sha E (t + 1) p of
                       Inl e \<Rightarrow> Inl e
                     | Inr h2 \<Rightarrow> Inr (bad @ [(name, h2)], t + 2))
                  else Inr (bad, t + 1))))"

text \<open>
  \<^verbatim>\<open>for name,h in bad: print(f"  - {name}: {h} (expected {EXP[name]})")\<close>, from the
  lines printed so far.
\<close>

definition violation_line :: "string \<Rightarrow> string \<Rightarrow> string \<Rightarrow> string" where
  "violation_line name h x = ''  - '' @ name @ '': '' @ h @ '' (expected '' @ x @ '')''"

fun print_bad :: "(string \<times> string) list \<Rightarrow> string list \<Rightarrow> exn option \<times> string list" where
  "print_bad [] out = (None, out)"
| "print_bad ((name, h) # rest) out =
     (case EXP_get name of
        Inl e \<Rightarrow> (Some e, out)
      | Inr x \<Rightarrow> print_bad rest (out @ [violation_line name h x]))"

text \<open>
  The module body from clock \<open>t\<close>. \<^verbatim>\<open>sys.exit(2)\<close> ends the process with status 2;
  a script that reaches its end exits with status 0.
\<close>

definition module_body :: "env \<Rightarrow> nat \<Rightarrow> run" where
  "module_body E t =
     (case check_line E (Z (script E)) ''ZPlaneFilter.h'' ([], t) of
        Inl e \<Rightarrow> \<lparr>stdout = [], outcome = Uncaught e\<rparr>
      | Inr s \<Rightarrow>
          (case check_line E (T (script E)) ''EMUAuthenticTables.h'' s of
             Inl e \<Rightarrow> \<lparr>stdout = [], outcome = Uncaught e\<rparr>
           | Inr (bad, t') \<Rightarrow>
               if bad \<noteq> [] then
                 (case print_bad bad [''DSP LOCK VIOLATION:''] of
                    (Some e, out) \<Rightarrow> \<lparr>stdout = out, outcome = Uncaught e\<rparr>
                  | (None, out) \<Rightarrow> \<lparr>stdout = out, outcome = Exit 2\<rparr>)
               else \<lparr>stdout = [''DSP lock OK.''], outcome = Exit 0\<rparr>))"

subsection \<open>Comparing digests without regard to letter case\<close>



section \<open>Properties\<close>

subsection \<open>The hash object\<close>

text \<open>
  \<^verbatim>\<open>hashlib\<close> is not part of the repository. The model above is checked against the
  test vectors of FIPS 180-4: the message \<^verbatim>\<open>abc\<close>, the empty message, and a message
  of 56 bytes, whose padding opens a second block.
\<close>

lemma sha256_abc:
  "sha256_hexdigest (hashlib_sha256 ''abc'')
     = ''ba7816bf8f01cfea414140de5dae2223b00361a396177a9cb410ff61f20015ad''"
  by code_simp

lemma sha256_empty:
  "sha256_hexdigest (hashlib_sha256 [])
     = ''e3b0c44298fc1c149afbf4c8996fb92427ae41e4649b934ca495991b7852b855''"
  by code_simp

lemma sha256_two_blocks:
  "sha256_hexdigest
     (hashlib_sha256 ''abcdbcdecdefdefgefghfghighijhijkijkljklmklmnlmnomnopnopq'')
     = ''248d6a61d20638b8e5c026930c3e6039a33ce45964ff2167f6ecedd419db06c1''"
  by code_simp

text \<open>Updating twice is updating once with the concatenation.\<close>

lemma absorb_append:
  "absorb hv (xs @ ys) = (case absorb hv xs of (hv', rest) \<Rightarrow> absorb hv' (rest @ ys))"
proof (induction hv xs rule: absorb.induct)
  case (1 hv buf)
  show ?case
  proof (cases "64 \<le> length buf")
    case True
    then have "absorb hv (buf @ ys) = absorb (compress hv (take 64 buf)) (drop 64 buf @ ys)"
      by (subst absorb.simps) simp
    also have "\<dots> = (case absorb (compress hv (take 64 buf)) (drop 64 buf) of
                      (hv', rest) \<Rightarrow> absorb hv' (rest @ ys))"
      using True by (rule "1.IH")
    also have "absorb (compress hv (take 64 buf)) (drop 64 buf) = absorb hv buf"
      using True by (subst (2) absorb.simps) simp
    finally show ?thesis .
  next
    case False
    then show ?thesis
      by (subst (2) absorb.simps) simp
  qed
qed

lemma sha256_update_append:
  "sha256_update (sha256_update h a) b = sha256_update h (a @ b)"
proof -
  obtain hv1 r1 where a1: "absorb (words h) (pending h @ a) = (hv1, r1)"
    by (cases "absorb (words h) (pending h @ a)")
  have "absorb (words h) (pending h @ a @ b) = absorb hv1 (r1 @ b)"
    using absorb_append [of "words h" "pending h @ a" b] a1 by simp
  then show ?thesis
    by (simp add: sha256_update_def a1 split: prod.splits)
qed

lemma absorb_short: "length buf < 64 \<Longrightarrow> absorb hv buf = (hv, buf)"
  by (subst absorb.simps) simp

lemma absorb_rest_short: "length (snd (absorb hv buf)) < 64"
proof (induction hv buf rule: absorb.induct)
  case (1 hv buf)
  then show ?case
    by (subst absorb.simps) simp
qed

lemma sha256_update_pending: "length (pending (sha256_update h b)) < 64"
  using absorb_rest_short [of "words h" "pending h @ b"]
  by (cases "absorb (words h) (pending h @ b)") (simp add: sha256_update_def)

lemma sha256_update_Nil: "length (pending h) < 64 \<Longrightarrow> sha256_update h [] = h"
  by (simp add: sha256_update_def absorb_short)

lemma read_loop_update:
  "length (pending h) < 64 \<Longrightarrow> read_loop h stream = sha256_update h stream"
proof (induction h stream rule: read_loop.induct)
  case (1 h stream)
  show ?case
  proof (cases "take 8192 stream = []")
    case True
    then have "stream = []" by simp
    then show ?thesis
      using "1.prems" by (subst read_loop.simps) (simp add: sha256_update_Nil)
  next
    case False
    have "read_loop h stream = read_loop (sha256_update h (take 8192 stream)) (drop 8192 stream)"
      using False by (subst read_loop.simps) (simp add: Let_def)
    also have "\<dots> = sha256_update (sha256_update h (take 8192 stream)) (drop 8192 stream)"
      using False by (intro "1.IH") (simp_all add: sha256_update_pending)
    also have "\<dots> = sha256_update h stream"
      by (simp add: sha256_update_append)
    finally show ?thesis .
  qed
qed

lemma read_loop_new: "read_loop sha256_new content = hashlib_sha256 content"
  by (simp add: read_loop_update hashlib_sha256_def sha256_new_def)










subsection \<open>The loop of \<^verbatim>\<open>main\<close>\<close>

lemma main_loop_Cons:
  "main_loop E (e # rest) (ok, out, t) =
     (case entry_status E t e of
        Inl x \<Rightarrow> (Inl x, out)
      | Inr v \<Rightarrow>
          main_loop E rest
            (ok \<and> v = Ok, out @ status_lines e (Inr v), if v = Missing then t + 1 else t + 2))"
  by (cases e) (simp add: entry_status_def Let_def split: sum.splits)

lemma stat_static:
  "stat (static f d fs) t p = (if p = [] then None else fs (os_resolve d p))"
  by (simp add: stat_def static_def)

lemma entry_status_static:
  "entry_status (static f d fs) t e = entry_status (static f d fs) t' e"
  by (cases e)
    (simp add: entry_status_def exists_def sha256_file_def open_read_def stat_static Let_def)

lemma main_loop_static_out:
  "snd (main_loop (static f d fs) hashes (ok, out, t)) =
     out @ concat (map (\<lambda>e. status_lines e (entry_status (static f d fs) 0 e))
                    (takeWhile (\<lambda>e. \<not> isl (entry_status (static f d fs) 0 e)) hashes))"
proof (induction hashes arbitrary: ok out t)
  case Nil
  show ?case by simp
next
  case (Cons e rest)
  show ?case
  proof (cases "entry_status (static f d fs) 0 e")
    case (Inl x)
    then show ?thesis
      by (simp add: main_loop_Cons entry_status_static [of f d fs t e 0])
  next
    case (Inr v)
    then show ?thesis
      by (simp add: main_loop_Cons entry_status_static [of f d fs t e 0] Cons.IH)
  qed
qed

lemma main_loop_static_result:
  "fst (main_loop (static f d fs) hashes (ok, out, t)) =
     (case find (\<lambda>e. isl (entry_status (static f d fs) 0 e)) hashes of
        Some e \<Rightarrow> Inl (projl (entry_status (static f d fs) 0 e))
      | None \<Rightarrow> Inr (ok \<and> list_all (\<lambda>e. entry_status (static f d fs) 0 e = Inr Ok) hashes))"
proof (induction hashes arbitrary: ok out t)
  case Nil
  show ?case by simp
next
  case (Cons e rest)
  show ?case
  proof (cases "entry_status (static f d fs) 0 e")
    case (Inl x)
    then show ?thesis
      by (simp add: main_loop_Cons entry_status_static [of f d fs t e 0])
  next
    case (Inr v)
    then show ?thesis
      by (auto simp add: main_loop_Cons entry_status_static [of f d fs t e 0] Cons.IH
          split: option.splits)
  qed
qed

lemma main_with_static:
  "main_with hashes (static f d fs) t =
     (case find (\<lambda>e. isl (entry_status (static f d fs) 0 e)) hashes of
        Some e \<Rightarrow>
          \<lparr>stdout = concat (map (\<lambda>e. status_lines e (entry_status (static f d fs) 0 e))
                      (takeWhile (\<lambda>e. \<not> isl (entry_status (static f d fs) 0 e)) hashes)),
           outcome = Uncaught (projl (entry_status (static f d fs) 0 e))\<rparr>
      | None \<Rightarrow>
          if list_all (\<lambda>e. entry_status (static f d fs) 0 e = Inr Ok) hashes then
            \<lparr>stdout = concat (map (\<lambda>e. status_lines e (entry_status (static f d fs) 0 e))
                      (takeWhile (\<lambda>e. \<not> isl (entry_status (static f d fs) 0 e)) hashes))
                    @ [''LOCK OK''],
             outcome = Exit 0\<rparr>
          else
            \<lparr>stdout = concat (map (\<lambda>e. status_lines e (entry_status (static f d fs) 0 e))
                      (takeWhile (\<lambda>e. \<not> isl (entry_status (static f d fs) 0 e)) hashes))
                    @ [failed_banner],
             outcome = Exit 2\<rparr>)"
proof -
  obtain r out where m: "main_loop (static f d fs) hashes (True, [], t) = (r, out)"
    by (cases "main_loop (static f d fs) hashes (True, [], t)")
  have r: "r = (case find (\<lambda>e. isl (entry_status (static f d fs) 0 e)) hashes of
        Some e \<Rightarrow> Inl (projl (entry_status (static f d fs) 0 e))
      | None \<Rightarrow> Inr (list_all (\<lambda>e. entry_status (static f d fs) 0 e = Inr Ok) hashes))"
    using main_loop_static_result [of f d fs hashes True "[]" t] m
    by (simp split: option.split)
  have out: "out = concat (map (\<lambda>e. status_lines e (entry_status (static f d fs) 0 e))
                    (takeWhile (\<lambda>e. \<not> isl (entry_status (static f d fs) 0 e)) hashes))"
    using main_loop_static_out [of f d fs hashes True "[]" t] m by simp
  show ?thesis
    unfolding main_with_def m
    by (simp add: r out [symmetric] split: option.split)
qed

lemma all_Ok_no_fault:
  "list_all (\<lambda>e. S e = Inr Ok) hashes \<Longrightarrow> find (\<lambda>e. isl (S e)) hashes = None"
  by (auto simp add: find_None_iff list_all_iff)

lemma all_Ok_no_lines:
  "list_all (\<lambda>e. S e = Inr Ok) hashes \<Longrightarrow>
     concat (map (\<lambda>e. status_lines e (S e)) (takeWhile (\<lambda>e. \<not> isl (S e)) hashes)) = []"
  by (induction hashes) auto





lemma entry_status_readable:
  assumes "exists E t (join (ROOT (script E)) [rel])"
    and "open_read E (t + 1) (join (ROOT (script E)) [rel]) = Inr content"
  shows "entry_status E t (rel, expected) =
           (if sha256_hexdigest (hashlib_sha256 content) \<noteq> expected
            then Inr (Mismatch (sha256_hexdigest (hashlib_sha256 content))) else Inr Ok)"
  using assms by (simp add: entry_status_def sha256_file_def read_loop_new Let_def)


subsection \<open>The module body of \<^verbatim>\<open>verify_lock.py\<close>\<close>




lemma EXP_get_Z:
  "EXP_get ''ZPlaneFilter.h''
     = Inr ''dbfe0b15ba73ab1a44a698e31617fecb0a71cb622dc10c7770994f55e3554f33''"
  by (simp add: EXP_get_def EXP_def)

lemma EXP_get_T:
  "EXP_get ''EMUAuthenticTables.h''
     = Inr ''b3bd58a897b16065c12faa3e2b966f0ac9a28581231ece2be599e19d14cf3756''"
  by (simp add: EXP_get_def EXP_def)

lemma sha_static_readable:
  "open_read (static f d fs) 0 p = Inr c \<Longrightarrow>
     sha (static f d fs) t p = Inr (sha256_hexdigest (hashlib_sha256 c))"
  by (simp add: sha_def open_read_def stat_static)

lemma module_body_readable:
  assumes "open_read (static f d fs) 0 (Z f) = Inr cz"
    and "open_read (static f d fs) 0 (T f) = Inr ct"
  shows "module_body (static f d fs) t =
     (if sha256_hexdigest (hashlib_sha256 cz)
           \<noteq> ''dbfe0b15ba73ab1a44a698e31617fecb0a71cb622dc10c7770994f55e3554f33''
      then
        if sha256_hexdigest (hashlib_sha256 ct)
             \<noteq> ''b3bd58a897b16065c12faa3e2b966f0ac9a28581231ece2be599e19d14cf3756''
        then
          \<lparr>stdout = [''DSP LOCK VIOLATION:'',
             violation_line ''ZPlaneFilter.h'' (sha256_hexdigest (hashlib_sha256 cz))
               ''dbfe0b15ba73ab1a44a698e31617fecb0a71cb622dc10c7770994f55e3554f33'',
             violation_line ''EMUAuthenticTables.h'' (sha256_hexdigest (hashlib_sha256 ct))
               ''b3bd58a897b16065c12faa3e2b966f0ac9a28581231ece2be599e19d14cf3756''],
           outcome = Exit 2\<rparr>
        else
          \<lparr>stdout = [''DSP LOCK VIOLATION:'',
             violation_line ''ZPlaneFilter.h'' (sha256_hexdigest (hashlib_sha256 cz))
               ''dbfe0b15ba73ab1a44a698e31617fecb0a71cb622dc10c7770994f55e3554f33''],
           outcome = Exit 2\<rparr>
      else
        if sha256_hexdigest (hashlib_sha256 ct)
             \<noteq> ''b3bd58a897b16065c12faa3e2b966f0ac9a28581231ece2be599e19d14cf3756''
        then
          \<lparr>stdout = [''DSP LOCK VIOLATION:'',
             violation_line ''EMUAuthenticTables.h'' (sha256_hexdigest (hashlib_sha256 ct))
               ''b3bd58a897b16065c12faa3e2b966f0ac9a28581231ece2be599e19d14cf3756''],
           outcome = Exit 2\<rparr>
        else \<lparr>stdout = [''DSP lock OK.''], outcome = Exit 0\<rparr>)"
proof -
  have z: "sha (static f d fs) u (Z f) = Inr (sha256_hexdigest (hashlib_sha256 cz))" for u
    using assms(1) by (rule sha_static_readable)
  have t: "sha (static f d fs) u (T f) = Inr (sha256_hexdigest (hashlib_sha256 ct))" for u
    using assms(2) by (rule sha_static_readable)
  have s: "script (static f d fs) = f"
    by (simp add: static_def)
  show ?thesis
    by (simp add: module_body_def check_line_def s z t EXP_get_Z EXP_get_T)
qed





subsection \<open>Paths\<close>

























section \<open>The claims\<close>

text \<open>
  Below, a filesystem that does not change during the run is \<open>static f d fs\<close>: the
  script at \<open>f\<close>, run from the directory \<open>d\<close>, on the files \<open>fs\<close>. On it the
  verdict on an entry, \<open>entry_status (static f d fs) 0 e\<close>, does not depend on the clock;
  \<open>isl\<close> of a verdict says that the entry raised an exception instead of reaching one.
\<close>

subsection \<open>C1: the exit status\<close>




subsection \<open>C2: what an entry can do to the run\<close>




subsection \<open>C3: a path that is not there\<close>




subsection \<open>C4: reading in chunks\<close>

text \<open>
  Claim C4. For every byte sequence, feeding the content to the hash object in reads of
  8192 bytes until the stream is empty, as \<^verbatim>\<open>sha256_file\<close> of
  \<^verbatim>\<open>verify-lock.py\<close> does, gives the digest that hashing the whole content in one
  call gives, as \<^verbatim>\<open>sha\<close> of \<^verbatim>\<open>verify_lock.py\<close> does; the two functions agree
  on every path, in every environment, errors included.
\<close>

theorem chunked_digest_eq_whole:
  "sha256_hexdigest (read_loop sha256_new content) = sha256_hexdigest (hashlib_sha256 content)
   \<and> sha256_file E t p = sha E t p"
  by (simp add: read_loop_new sha256_file_def sha_def split: sum.split)

subsection \<open>C5: how digests are compared\<close>




subsection \<open>C6: the root\<close>



subsection \<open>C7: the order of the report\<close>

text \<open>
  Claim C7. On every filesystem, whichever entries fail, the output of
  \<^verbatim>\<open>verify-lock.py\<close> is the lines of the entries in the order of the table, entry
  after entry, up to the first entry that raises if one does, and then the closing line
  of a run that reaches it.
\<close>

theorem report_in_table_order:
  "stdout (main_with hashes (static f d fs) t) =
     concat (map (\<lambda>e. status_lines e (entry_status (static f d fs) 0 e))
               (takeWhile (\<lambda>e. \<not> isl (entry_status (static f d fs) 0 e)) hashes))
     @ (case outcome (main_with hashes (static f d fs) t) of
          Exit c \<Rightarrow> [if c = 0 then ''LOCK OK'' else failed_banner]
        | Uncaught x \<Rightarrow> [])"
  by (simp add: main_with_static split: option.split)

subsection \<open>C8: success\<close>

text \<open>
  Claim C8. On every filesystem on which every entry of the table is Ok (its file exists,
  can be read, and has the expected digest), \<^verbatim>\<open>verify-lock.py\<close> prints the one line
  \<^verbatim>\<open>LOCK OK\<close> and exits with status 0. \<^verbatim>\<open>main\<close> is \<open>main_with HASHES\<close>.
\<close>

theorem all_ok_prints_LOCK_OK:
  "list_all (\<lambda>e. entry_status (static f d fs) 0 e = Inr Ok) hashes \<Longrightarrow>
     main_with hashes (static f d fs) t = \<lparr>stdout = [''LOCK OK''], outcome = Exit 0\<rparr>"
  by (simp add: main_with_static all_Ok_no_fault all_Ok_no_lines)

text \<open>
  Claim C8, an instance: a table of one entry, the file \<^verbatim>\<open>a.txt\<close> with the digest of
  \<^verbatim>\<open>abc\<close>, and a disk on which the file holds \<^verbatim>\<open>abc\<close>.
\<close>

theorem all_ok_prints_LOCK_OK_witness:
  "list_all
     (\<lambda>e. entry_status
        (static ''/repo/scripts/verify-lock.py'' ''/tmp'' [''/repo/a.txt'' \<mapsto> RegularFile ''abc''])
        0 e = Inr Ok)
     [(''a.txt'', ''ba7816bf8f01cfea414140de5dae2223b00361a396177a9cb410ff61f20015ad'')]
   \<and> main_with [(''a.txt'', ''ba7816bf8f01cfea414140de5dae2223b00361a396177a9cb410ff61f20015ad'')]
        (static ''/repo/scripts/verify-lock.py'' ''/tmp'' [''/repo/a.txt'' \<mapsto> RegularFile ''abc''])
        0 = \<lparr>stdout = [''LOCK OK''], outcome = Exit 0\<rparr>"
proof -
  let ?E = "static ''/repo/scripts/verify-lock.py'' ''/tmp'' [''/repo/a.txt'' \<mapsto> RegularFile ''abc'']"
  have b: "exists ?E 0 (join (ROOT (script ?E)) [''a.txt''])"
    by code_simp
  have c: "open_read ?E (0 + 1) (join (ROOT (script ?E)) [''a.txt'']) = Inr ''abc''"
    by code_simp
  have h: "list_all (\<lambda>e. entry_status ?E 0 e = Inr Ok)
     [(''a.txt'', ''ba7816bf8f01cfea414140de5dae2223b00361a396177a9cb410ff61f20015ad'')]"
    using entry_status_readable [OF b c] by (simp add: sha256_abc)
  show ?thesis
    using h all_ok_prints_LOCK_OK [OF h, of 0] by simp
qed

text \<open>
  \<^verbatim>\<open>verify_lock.py\<close> has its own success line: when both files can be read and have
  the expected digests it prints \<^verbatim>\<open>DSP lock OK.\<close> and exits with status 0.
\<close>

lemma module_body_all_ok:
  assumes "open_read (static f d fs) 0 (Z f) = Inr cz"
    and "open_read (static f d fs) 0 (T f) = Inr ct"
    and "sha256_hexdigest (hashlib_sha256 cz)
           = ''dbfe0b15ba73ab1a44a698e31617fecb0a71cb622dc10c7770994f55e3554f33''"
    and "sha256_hexdigest (hashlib_sha256 ct)
           = ''b3bd58a897b16065c12faa3e2b966f0ac9a28581231ece2be599e19d14cf3756''"
  shows "module_body (static f d fs) t = \<lparr>stdout = [''DSP lock OK.''], outcome = Exit 0\<rparr>"
  using assms by (simp add: module_body_readable)

subsection \<open>C9: running twice\<close>


subsection \<open>C10: the digest that is shown\<close>




section \<open>Further properties\<close>

text \<open>
  Property X1. The two tables are well formed: no path or name is listed twice, and every
  expected digest is 64 lower-case hexadecimal digits.
\<close>

theorem tables_well_formed:
  "distinct (map fst HASHES) \<and> distinct (map fst EXP)
   \<and> list_all (\<lambda>e. length (snd e) = 64
                    \<and> list_all (\<lambda>c. c \<in> set ''0123456789abcdef'') (snd e)) (HASHES @ EXP)"
  by code_simp

text \<open>
  Property X2. In \<^verbatim>\<open>verify-lock.py\<close> the test \<^verbatim>\<open>os.path.exists\<close> and the call
  of \<^verbatim>\<open>open\<close> are two filesystem calls: a file that is there at the first and gone
  at the second is not reported as Missing; \<^verbatim>\<open>open\<close> raises
  \<^verbatim>\<open>FileNotFoundError\<close> and the process ends with nothing printed.
\<close>

theorem file_removed_after_exists:
  "main \<lparr>script = ''/repo/scripts/verify-lock.py'', cwd = ''/tmp'',
         disk = (\<lambda>n. if n = 0
                     then [''/repo/plugins/field/Source/dsp/EMUAuthenticTables.h''
                             \<mapsto> RegularFile ''abc'']
                     else Map.empty)\<rparr> 0
     = \<lparr>stdout = [], outcome = Uncaught FileNotFoundError\<rparr>"
  by code_simp

end
